theory Spec2Isabelle
  imports Complex_Main "HOL-Library.Word"
begin

unbundle bit_operations_syntax

section \<open>Enumerations of the domain (common.ts, DicomImage.ts)\<close>

datatype TransferSyntax =
  JPEG2000 | DecodeRLE | JPEGLossless | JPEGBaseline | UncompressedLE | UncompressedBE

datatype Endianness = LittleEndian | BigEndian

datatype Compression = Compression_None | JpegLossless | JpegBaseline | Jpeg2000 | Rle

datatype PixelRepresentation = Unsigned | Signed

datatype PlanarConfiguration = Interlaced | Separated

text \<open>
  \<^verbatim>\<open>Result<T, string>\<close> of the repository: \<^verbatim>\<open>Err\<close> carries a message,
  \<^verbatim>\<open>Ok\<close> the value.
\<close>

datatype 'a Result = Err string | Ok 'a

section \<open>Transfer syntax resolver\<close>

text \<open>
  \<^verbatim>\<open>TransferSyntax_.fromTransferSyntaxUID\<close> of common.ts: a ts-pattern match on the
  exact string, tried in the order written, ending in the wildcard branch
  \<^verbatim>\<open>Err("Unexpected transfer syntax")\<close>.
\<close>

definition TransferSyntax_fromTransferSyntaxUID :: "string \<Rightarrow> TransferSyntax Result" where
  "TransferSyntax_fromTransferSyntaxUID transferSyntax =
     (if transferSyntax = ''1.2.840.10008.1.2'' \<or> transferSyntax = ''1.2.840.10008.1.2.1''
        then Ok UncompressedLE
      else if transferSyntax = ''1.2.840.10008.1.2.2'' then Ok UncompressedBE
      else if transferSyntax = ''1.2.840.10008.1.2.4.90'' \<or> transferSyntax = ''1.2.840.10008.1.2.4.91''
        then Ok JPEG2000
      else if transferSyntax = ''1.2.840.10008.1.2.5'' then Ok DecodeRLE
      else if transferSyntax = ''1.2.840.10008.1.2.4.57'' \<or> transferSyntax = ''1.2.840.10008.1.2.4.70''
        then Ok JPEGLossless
      else if transferSyntax = ''1.2.840.10008.1.2.4.50'' \<or> transferSyntax = ''1.2.840.10008.1.2.4.51''
        then Ok JPEGBaseline
      else Err ''Unexpected transfer syntax'')"

text \<open>
  \<^verbatim>\<open>TransferSyntax_.fromTransferSyntaxUID\<close> of DicomImage.ts, the one
  \<^verbatim>\<open>DicomImage._fromDataSet\<close> calls: a \<^verbatim>\<open>switch\<close> whose \<^verbatim>\<open>default\<close> label shares
  the branch of \<^verbatim>\<open>"1.2.840.10008.1.2.2"\<close>. It is called with the result of
  \<^verbatim>\<open>dataSet.string\<close>, which is \<^verbatim>\<open>undefined\<close> (here \<open>None\<close>) for an absent tag;
  \<^verbatim>\<open>undefined\<close> matches no \<^verbatim>\<open>case\<close> and takes the \<^verbatim>\<open>default\<close>.
\<close>

definition DicomImage_fromTransferSyntaxUID :: "string option \<Rightarrow> TransferSyntax" where
  "DicomImage_fromTransferSyntaxUID transferSyntaxUID =
     (if transferSyntaxUID = Some ''1.2.840.10008.1.2.4.90''
         \<or> transferSyntaxUID = Some ''1.2.840.10008.1.2.4.91'' then JPEG2000
      else if transferSyntaxUID = Some ''1.2.840.10008.1.2.5'' then DecodeRLE
      else if transferSyntaxUID = Some ''1.2.840.10008.1.2.4.57''
         \<or> transferSyntaxUID = Some ''1.2.840.10008.1.2.4.70'' then JPEGLossless
      else if transferSyntaxUID = Some ''1.2.840.10008.1.2.4.50''
         \<or> transferSyntaxUID = Some ''1.2.840.10008.1.2.4.51'' then JPEGBaseline
      else if transferSyntaxUID = Some ''1.2.840.10008.1.2''
         \<or> transferSyntaxUID = Some ''1.2.840.10008.1.2.1'' then UncompressedLE
      else UncompressedBE)"

text \<open>
  \<^verbatim>\<open>TransferSyntax_.toCompressionAndEndianness\<close>: the same six cases in common.ts
  (ts-pattern, \<^verbatim>\<open>exhaustive()\<close>) and in DicomImage.ts (\<^verbatim>\<open>switch\<close>).
\<close>

fun toCompressionAndEndianness :: "TransferSyntax \<Rightarrow> Compression \<times> Endianness" where
  "toCompressionAndEndianness UncompressedBE = (Compression_None, BigEndian)"
| "toCompressionAndEndianness UncompressedLE = (Compression_None, LittleEndian)"
| "toCompressionAndEndianness DecodeRLE = (Rle, LittleEndian)"
| "toCompressionAndEndianness JPEGLossless = (JpegLossless, LittleEndian)"
| "toCompressionAndEndianness JPEG2000 = (Jpeg2000, LittleEndian)"
| "toCompressionAndEndianness JPEGBaseline = (JpegBaseline, LittleEndian)"

text \<open>\<^verbatim>\<open>TransferSyntax_.default\<close> of common.ts.\<close>

definition TransferSyntax_default :: TransferSyntax where
  "TransferSyntax_default = UncompressedLE"

text \<open>The ten transfer-syntax UIDs the resolver recognises.\<close>

definition recognizedUIDs :: "string list" where
  "recognizedUIDs =
     [''1.2.840.10008.1.2'', ''1.2.840.10008.1.2.1'', ''1.2.840.10008.1.2.2'',
      ''1.2.840.10008.1.2.4.90'', ''1.2.840.10008.1.2.4.91'', ''1.2.840.10008.1.2.5'',
      ''1.2.840.10008.1.2.4.57'', ''1.2.840.10008.1.2.4.70'',
      ''1.2.840.10008.1.2.4.50'', ''1.2.840.10008.1.2.4.51'']"

text \<open>The failure the specification calls \<open>UnrecognizedTransferSyntax\<close>.\<close>

definition UnrecognizedTransferSyntax :: "TransferSyntax Result" where
  "UnrecognizedTransferSyntax = Err ''Unexpected transfer syntax''"

section \<open>JavaScript values the code works on\<close>

text \<open>
  Exceptions thrown by the code: \<^verbatim>\<open>throw Error(msg)\<close> of the repository, and the
  \<^verbatim>\<open>RangeError\<close> and \<^verbatim>\<open>TypeError\<close> the language raises (a typed-array view over a
  buffer whose byte length is no multiple of the element size; a property read on
  \<^verbatim>\<open>undefined\<close>).
\<close>

datatype error = Error string | RangeError | TypeError

text \<open>
  A JavaScript \<^verbatim>\<open>number\<close> as far as the code needs it: not-a-number, the two
  infinities, or a finite value. A finite value is kept as the exact real; rounding to
  the nearest double and the sign of zero are not modelled.
\<close>

datatype number = NaN | Num real | PosInfinity | NegInfinity

text \<open>
  \<^verbatim>\<open>Uint8Array\<close>: a view of \<open>byteLength\<close> bytes at \<open>byteOffset\<close> into its
  \<^verbatim>\<open>ArrayBuffer\<close>. The decoder reads \<^verbatim>\<open>pixelData.buffer\<close>, the whole underlying buffer.
\<close>

record Uint8Array =
  buffer :: "8 word list"
  byteOffset :: nat
  byteLength :: nat

text \<open>
  Typed-array views over a buffer. Elements are read in the byte order of the platform
  (\<open>plat\<close>); \<^verbatim>\<open>new Uint16Array(buffer)\<close> and \<^verbatim>\<open>new Uint32Array(buffer)\<close> throw a
  \<^verbatim>\<open>RangeError\<close> when the byte length is no multiple of 2, respectively 4.
\<close>

definition u16 :: "Endianness \<Rightarrow> 8 word \<Rightarrow> 8 word \<Rightarrow> 16 word" where
  "u16 plat b0 b1 =
     (case plat of
        LittleEndian \<Rightarrow> ucast b0 OR push_bit 8 (ucast b1)
      | BigEndian \<Rightarrow> ucast b1 OR push_bit 8 (ucast b0))"

definition u32 :: "Endianness \<Rightarrow> 8 word \<Rightarrow> 8 word \<Rightarrow> 8 word \<Rightarrow> 8 word \<Rightarrow> 32 word" where
  "u32 plat b0 b1 b2 b3 =
     (case plat of
        LittleEndian \<Rightarrow>
          ucast b0 OR push_bit 8 (ucast b1) OR push_bit 16 (ucast b2) OR push_bit 24 (ucast b3)
      | BigEndian \<Rightarrow>
          ucast b3 OR push_bit 8 (ucast b2) OR push_bit 16 (ucast b1) OR push_bit 24 (ucast b0))"

fun u16s :: "Endianness \<Rightarrow> 8 word list \<Rightarrow> 16 word list" where
  "u16s plat (b0 # b1 # bs) = u16 plat b0 b1 # u16s plat bs"
| "u16s plat bs = []"

fun u32s :: "Endianness \<Rightarrow> 8 word list \<Rightarrow> 32 word list" where
  "u32s plat (b0 # b1 # b2 # b3 # bs) = u32 plat b0 b1 b2 b3 # u32s plat bs"
| "u32s plat bs = []"

definition new_Uint16Array :: "Endianness \<Rightarrow> 8 word list \<Rightarrow> error + 16 word list" where
  "new_Uint16Array plat buf =
     (if length buf mod 2 \<noteq> 0 then Inl RangeError else Inr (u16s plat buf))"

definition new_Uint32Array :: "Endianness \<Rightarrow> 8 word list \<Rightarrow> error + 32 word list" where
  "new_Uint32Array plat buf =
     (if length buf mod 4 \<noteq> 0 then Inl RangeError else Inr (u32s plat buf))"

datatype TypedArray = Uint8 "8 word list" | Uint16 "16 word list" | Uint32 "32 word list"

section \<open>DicomImage (DicomImage.ts)\<close>

text \<open>
  \<^verbatim>\<open>PhotometricInterpratation\<close> and \<^verbatim>\<open>VoiLutFunction\<close> are string enums, and the
  extractor casts the tag's string to them unchecked, so a value of these types is any
  string at run time. The members the decoder compares against:
\<close>

type_synonym PhotometricInterpratation = string

definition Monochrome1 :: PhotometricInterpratation where
  "Monochrome1 = ''MONOCHROME1''"

definition Monochrome2 :: PhotometricInterpratation where
  "Monochrome2 = ''MONOCHROME2''"

definition Rgb :: PhotometricInterpratation where
  "Rgb = ''RGB''"

type_synonym VoiLutFunction = string

definition Linear :: VoiLutFunction where
  "Linear = ''LINEAR''"

definition LinearExact :: VoiLutFunction where
  "LinearExact = ''LINEAR_EXACT''"

definition Sigmoid :: VoiLutFunction where
  "Sigmoid = ''SIGMOID''"

datatype PixelDataVr = OB | OW

text \<open>The object type of the field \<^verbatim>\<open>DicomImage.voiLutModule\<close>; every field is optional.\<close>

record WindowingHint =
  windowCenter :: "number option"
  windowWidth :: "number option"
  voiLutFunction :: "VoiLutFunction option"

text \<open>
  The interface \<^verbatim>\<open>DicomImage\<close>. Its numeric fields are read with
  \<^verbatim>\<open>dataSet.uint16\<close>, so they are natural numbers; the arithmetic on them is that of
  JavaScript numbers, which does not wrap at 16 bits.
\<close>

record DicomImage =
  compression :: Compression
  endianness :: Endianness
  rows :: nat
  columns :: nat
  samplePerPixel :: nat
  photometricInterpratation :: PhotometricInterpratation
  planarConfiguration :: "PlanarConfiguration option"
  bitsAllocated :: nat
  bitsStored :: nat
  highBit :: nat
  pixelRepresentation :: PixelRepresentation
  pixelData :: Uint8Array
  pixelDataVr :: PixelDataVr
  voiLutModule :: WindowingHint

section \<open>The tag source (dicom-parser's DataSet)\<close>

text \<open>
  An element of \<^verbatim>\<open>dataSet.elements\<close>: its value representation, when recorded, its
  length (\<^verbatim>\<open>length\<close> in the source) and the offset of its value in \<^verbatim>\<open>byteArray\<close>.
\<close>

record Element =
  vr :: "string option"
  length_e :: nat
  dataOffset :: nat

text \<open>
  The \<^verbatim>\<open>DataSet\<close> as the extractor uses it: the typed getters \<^verbatim>\<open>string\<close>,
  \<^verbatim>\<open>uint16\<close> and \<^verbatim>\<open>floatString\<close> (\<^verbatim>\<open>undefined\<close>, here \<open>None\<close>, for an absent
  tag), the table \<^verbatim>\<open>elements\<close> and the raw \<^verbatim>\<open>byteArray\<close>.
\<close>

record DataSet =
  dataSet_string :: "string \<Rightarrow> string option"
  dataSet_uint16 :: "string \<Rightarrow> nat option"
  dataSet_floatString :: "string \<Rightarrow> number option"
  elements :: "string \<Rightarrow> Element option"
  byteArray :: "8 word list"

text \<open>
  The copy loop of \<^verbatim>\<open>_fromDataSet\<close>: a fresh \<^verbatim>\<open>Uint8Array\<close> of the element's length,
  filled from \<^verbatim>\<open>byteArray[dataOffset + idx]\<close>. A read past the end of \<^verbatim>\<open>byteArray\<close>
  gives \<^verbatim>\<open>undefined\<close>, which a \<^verbatim>\<open>Uint8Array\<close> stores as 0.
\<close>

definition copyPixelData :: "8 word list \<Rightarrow> Element \<Rightarrow> Uint8Array" where
  "copyPixelData bytes pixelDataElement =
     \<lparr>buffer = map (\<lambda>idx. if dataOffset pixelDataElement + idx < length bytes
                            then bytes ! (dataOffset pixelDataElement + idx) else 0)
                     [0 ..< length_e pixelDataElement],
      byteOffset = 0,
      byteLength = length_e pixelDataElement\<rparr>"

text \<open>
  The recurring step of \<^verbatim>\<open>_fromDataSet\<close>:
  \<^verbatim>\<open>const x = ...; if (x == null) return {_tag: ResultTag.Err, value: msg};\<close>
  followed by the rest of the function, which uses \<open>x\<close>.
\<close>

definition required ::
  "'a option \<Rightarrow> string \<Rightarrow> ('a \<Rightarrow> error + 'b Result) \<Rightarrow> error + 'b Result" where
  "required x msg rest = (case x of None \<Rightarrow> Inr (Err msg) | Some v \<Rightarrow> rest v)"

text \<open>
  \<^verbatim>\<open>DicomImage._fromDataSet\<close>. Each \<^verbatim>\<open>return {_tag: ResultTag.Err, ...}\<close> is an
  \<open>Err\<close>; reading \<^verbatim>\<open>pixelDataElement.vr\<close> of an absent pixel-data element throws a
  \<^verbatim>\<open>TypeError\<close>. The two \<^verbatim>\<open>switch\<close> statements on a numeric code and the one on
  the value representation are written as their \<^verbatim>\<open>default\<close> test followed by the
  choice between the two remaining cases.
\<close>

definition DicomImage_fromDataSet :: "DataSet \<Rightarrow> error + DicomImage Result" where
  "DicomImage_fromDataSet dataSet =
     (let transferSyntax = DicomImage_fromTransferSyntaxUID (dataSet_string dataSet ''x00020012'');
          compression' = fst (toCompressionAndEndianness transferSyntax);
          endianness' = snd (toCompressionAndEndianness transferSyntax)
      in
      required (dataSet_uint16 dataSet ''x00280010'') ''DicomImage need to have rows'' (\<lambda>rows'.
      required (dataSet_uint16 dataSet ''x00280011'') ''DicomImage need to have columns'' (\<lambda>columns'.
      required (dataSet_uint16 dataSet ''x00280002'') ''DicomImage need to have samplePerPixel''
        (\<lambda>samplePerPixel'.
      required (dataSet_string dataSet ''x00280004'')
        ''DicomImage need to have photometricInterpratation'' (\<lambda>photometricInterpratationValue.
      let photometricInterpratation' = photometricInterpratationValue;
          planarConfigurationValue =
            (case dataSet_uint16 dataSet ''x00280006'' of None \<Rightarrow> 0 | Some v \<Rightarrow> v)
      in
      if planarConfigurationValue \<noteq> 0 \<and> planarConfigurationValue \<noteq> 1
      then Inr (Err ''DicomImage have incorrect planarConfiguration'')
      else
      let planarConfiguration' = (if planarConfigurationValue = 0 then Interlaced else Separated)
      in
      required (dataSet_uint16 dataSet ''x00280100'') ''DicomImage need to have bitsAllocated''
        (\<lambda>bitsAllocated'.
      required (dataSet_uint16 dataSet ''x00280101'') ''DicomImage need to have bitsStored''
        (\<lambda>bitsStored'.
      required (dataSet_uint16 dataSet ''x00280102'') ''DicomImage need to have highBit''
        (\<lambda>highBit'.
      required (dataSet_uint16 dataSet ''x00280103'')
        ''DicomImage need to have pixelRepresentationValue'' (\<lambda>pixelRepresentationValue.
      if pixelRepresentationValue \<noteq> 0 \<and> pixelRepresentationValue \<noteq> 1
      then Inr (Err ''Unexpected value of pixelRepresentation'')
      else
      let pixelRepresentation' = (if pixelRepresentationValue = 0 then Unsigned else Signed)
      in
      (case elements dataSet ''x7fe00010'' of
         None \<Rightarrow> Inl TypeError
       | Some pixelDataElement \<Rightarrow>
      let pixelDataVrValue = (case vr pixelDataElement of None \<Rightarrow> ''OB'' | Some v \<Rightarrow> v)
      in
      if pixelDataVrValue \<noteq> ''OB'' \<and> pixelDataVrValue \<noteq> ''OW''
      then Inr (Err ''Unexpected pixelData VR'')
      else
      let pixelDataVr' = (if pixelDataVrValue = ''OB'' then OB else OW);
          pixelData' = copyPixelData (byteArray dataSet) pixelDataElement;
          windowCenter' = dataSet_floatString dataSet ''x00281050'';
          windowWidth' = dataSet_floatString dataSet ''x00281051'';
          voiLutFunction' =
            (case dataSet_string dataSet ''x00281056'' of
               Some f \<Rightarrow> Some f
             | None \<Rightarrow> (if windowCenter' \<noteq> None then Some Linear else None))
      in
      if elements dataSet ''x00283010'' \<noteq> None
      then Inr (Err ''Not supported voiLutSequence'')
      else
      Inr (Ok \<lparr>compression = compression',
               endianness = endianness',
               rows = rows',
               columns = columns',
               samplePerPixel = samplePerPixel',
               photometricInterpratation = photometricInterpratation',
               planarConfiguration = Some planarConfiguration',
               bitsAllocated = bitsAllocated',
               bitsStored = bitsStored',
               highBit = highBit',
               pixelRepresentation = pixelRepresentation',
               pixelData = pixelData',
               pixelDataVr = pixelDataVr',
               voiLutModule = \<lparr>windowCenter = windowCenter',
                                windowWidth = windowWidth',
                                voiLutFunction = voiLutFunction'\<rparr>\<rparr>)))))))))))"

section \<open>Sample decoder (Image.ts)\<close>

text \<open>
  The union \<^verbatim>\<open>Image = ImageGrayScale | ImageRGB\<close>; the arguments of each constructor
  are \<^verbatim>\<open>rows\<close>, \<^verbatim>\<open>columns\<close> and \<^verbatim>\<open>pixelData\<close>.
\<close>

datatype Image =
  ImageGrayScale nat nat TypedArray
| ImageRGB nat nat "32 word list"

text \<open>
  \<^verbatim>\<open>Image_._fromDataForImageGrayScale\<close>. The fields of its argument object are passed
  one by one, in the order of the interface \<^verbatim>\<open>DataForImageGrayScale\<close>; \<open>plat\<close> is the
  byte order of the platform's typed arrays.
\<close>

definition Image_fromDataForImageGrayScale ::
  "Endianness \<Rightarrow> nat \<Rightarrow> nat \<Rightarrow> PhotometricInterpratation \<Rightarrow> PixelRepresentation \<Rightarrow>
   nat \<Rightarrow> nat \<Rightarrow> nat \<Rightarrow> Uint8Array \<Rightarrow> PixelDataVr \<Rightarrow> error + Image" where
  "Image_fromDataForImageGrayScale plat rows' columns' photometricInterpratation'
     pixelRepresentation' bitsAllocated' bitsStored' highBit' pixelData' pixelDataVr' =
     (if pixelDataVr' = OW \<and> bitsAllocated' \<noteq> 16
        then Inl (Error ''Not supported pixelData VR'')
      else if highBit' + 1 \<noteq> bitsStored'
        then Inl (Error ''Not supported combination of hightBit and bitsStored'')
      else if photometricInterpratation' = Monochrome1
        then Inl (Error ''Not supported photometricInterpratation'')
      else if pixelRepresentation' = Signed
        then Inl (Error ''Not supported pixelRepresentation'')
      else
        (case (if bitsAllocated' = 8 then Inr (Uint8 (buffer pixelData'))
               else if bitsAllocated' = 16
                 then map_sum id Uint16 (new_Uint16Array plat (buffer pixelData'))
               else if bitsAllocated' = 32
                 then map_sum id Uint32 (new_Uint32Array plat (buffer pixelData'))
               else Inl (Error ''Not supported bitsAllocated''))
         of Inl e \<Rightarrow> Inl e
          | Inr imagePixelData \<Rightarrow> Inr (ImageGrayScale rows' columns' imagePixelData)))"

text \<open>\<^verbatim>\<open>Image_.fromDicomImage\<close>.\<close>

definition Image_fromDicomImage :: "Endianness \<Rightarrow> DicomImage \<Rightarrow> error + Image" where
  "Image_fromDicomImage plat dicomImage =
     (if compression dicomImage = Compression_None
      then (if (photometricInterpratation dicomImage = Monochrome1
                \<or> photometricInterpratation dicomImage = Monochrome2)
               \<and> samplePerPixel dicomImage = 1
            then Image_fromDataForImageGrayScale plat (rows dicomImage) (columns dicomImage)
                   (photometricInterpratation dicomImage) (pixelRepresentation dicomImage)
                   (bitsAllocated dicomImage) (bitsStored dicomImage) (highBit dicomImage)
                   (pixelData dicomImage) (pixelDataVr dicomImage)
            else Inl (Error ''Couldn't convert to Image''))
      else Inl (Error ''Couldn't convert to Image''))"

text \<open>\<^verbatim>\<open>Image_._rgbFrom\<close>, marked \<^verbatim>\<open>// TODO\<close> in the source; nothing calls it.\<close>

definition Image_rgbFrom :: "Endianness \<Rightarrow> DicomImage \<Rightarrow> error + Image" where
  "Image_rgbFrom plat dicomImage =
     (case new_Uint32Array plat (buffer (pixelData dicomImage)) of
        Inl e \<Rightarrow> Inl e
      | Inr px \<Rightarrow> Inr (ImageRGB (rows dicomImage) (columns dicomImage) px))"

text \<open>
  The conditions under which \<^verbatim>\<open>fromDicomImage\<close> enters the grayscale decoder (the
  grayscale preconditions of the specification).
\<close>

definition grayScalePreconditions :: "DicomImage \<Rightarrow> bool" where
  "grayScalePreconditions dicomImage \<longleftrightarrow>
     compression dicomImage = Compression_None
     \<and> (photometricInterpratation dicomImage = Monochrome1
        \<or> photometricInterpratation dicomImage = Monochrome2)
     \<and> samplePerPixel dicomImage = 1"

text \<open>The names the specification gives to the decoder's failures.\<close>

definition UnsupportedPixelDataRepresentation :: error where
  "UnsupportedPixelDataRepresentation = Error ''Not supported pixelData VR''"

definition UnsupportedBitLayout :: error where
  "UnsupportedBitLayout = Error ''Not supported combination of hightBit and bitsStored''"

definition UnsupportedPhotometricInterpretation :: error where
  "UnsupportedPhotometricInterpretation = Error ''Not supported photometricInterpratation''"

definition UnsupportedPixelRepresentation :: error where
  "UnsupportedPixelRepresentation = Error ''Not supported pixelRepresentation''"

definition UnsupportedBitDepth :: error where
  "UnsupportedBitDepth = Error ''Not supported bitsAllocated''"

text \<open>
  The bytes of 16-bit samples, least significant byte first (little-endian) and most
  significant byte first (big-endian).
\<close>

definition le16 :: "16 word \<Rightarrow> 8 word list" where
  "le16 v = [ucast v, ucast (drop_bit 8 v)]"

definition be16 :: "16 word \<Rightarrow> 8 word list" where
  "be16 v = [ucast (drop_bit 8 v), ucast v]"

text \<open>Whether the image ends in a raster.\<close>

fun returnsRaster :: "error + Image \<Rightarrow> bool" where
  "returnsRaster (Inr img) = True"
| "returnsRaster (Inl e) = False"

section \<open>PixelSpacing (common.ts)\<close>

text \<open>
  \<^verbatim>\<open>str.split(sep)\<close> for a separator of one character: the pieces between the
  occurrences of the separator, so one piece more than there are separators.
\<close>

fun String_split :: "char \<Rightarrow> string \<Rightarrow> string list" where
  "String_split sep [] = [[]]"
| "String_split sep (c # cs) =
     (if c = sep then [] # String_split sep cs
      else (case String_split sep cs of
              [] \<Rightarrow> [[c]]
            | piece # pieces \<Rightarrow> (c # piece) # pieces))"

text \<open>
  \<^verbatim>\<open>Number.parseFloat\<close> (ECMAScript, \<^verbatim>\<open>parseFloat(string)\<close>): leading white space is
  skipped, the longest prefix of the rest that is a \<^verbatim>\<open>StrDecimalLiteral\<close> is read
  (an optional sign, then \<^verbatim>\<open>Infinity\<close>, or digits with an optional fraction and an
  optional exponent, or a fraction starting with the point), and when there is no such
  prefix the result is \<^verbatim>\<open>NaN\<close>. It never throws. White space is the ASCII white
  space here.
\<close>

definition isWhiteSpace :: "char \<Rightarrow> bool" where
  "isWhiteSpace c \<longleftrightarrow> c \<in> set [CHR 0x09, CHR 0x0A, CHR 0x0B, CHR 0x0C, CHR 0x0D, CHR 0x20]"

definition isDigit :: "char \<Rightarrow> bool" where
  "isDigit c \<longleftrightarrow> c \<in> set ''0123456789''"

definition digitValue :: "char \<Rightarrow> nat" where
  "digitValue c = of_char c - 48"

definition digitsValue :: "string \<Rightarrow> nat" where
  "digitsValue ds = foldl (\<lambda>acc c. 10 * acc + digitValue c) 0 ds"

text \<open>The sign in front of a literal, and the rest.\<close>

fun signOf :: "string \<Rightarrow> bool \<times> string" where
  "signOf [] = (False, [])"
| "signOf (c # cs) =
     (if c = CHR ''-'' then (True, cs) else if c = CHR ''+'' then (False, cs) else (False, c # cs))"

text \<open>
  The value of the \<^verbatim>\<open>ExponentPart\<close> at the head of the string: \<^verbatim>\<open>e\<close> or \<^verbatim>\<open>E\<close>, an
  optional sign and at least one digit; 0 when there is none.
\<close>

fun exponentPart :: "string \<Rightarrow> int" where
  "exponentPart [] = 0"
| "exponentPart (c # cs) =
     (if c = CHR ''e'' \<or> c = CHR ''E''
      then (let ds = takeWhile isDigit (snd (signOf cs))
            in if ds = [] then 0
               else if fst (signOf cs) then - int (digitsValue ds) else int (digitsValue ds))
      else 0)"

definition parseFloat :: "string \<Rightarrow> number" where
  "parseFloat inputString =
     (let trimmedString = dropWhile isWhiteSpace inputString;
          negative = fst (signOf trimmedString);
          unsigned = snd (signOf trimmedString)
      in if take 8 unsigned = ''Infinity'' then (if negative then NegInfinity else PosInfinity)
         else
           (let intDigits = takeWhile isDigit unsigned;
                afterInt = dropWhile isDigit unsigned;
                hasPoint = (afterInt \<noteq> [] \<and> hd afterInt = CHR ''.'');
                fracDigits = (if hasPoint then takeWhile isDigit (tl afterInt) else []);
                afterFrac = (if hasPoint then dropWhile isDigit (tl afterInt) else afterInt)
            in if intDigits = [] \<and> fracDigits = [] then NaN
               else
                 (let mantissa = real (digitsValue (intDigits @ fracDigits)) / 10 ^ length fracDigits;
                      magnitude = mantissa * 10 powi exponentPart afterFrac
                  in Num (if negative then - magnitude else magnitude))))"

record PixelSpacing =
  row :: number
  column :: number

text \<open>
  \<^verbatim>\<open>PixelSpacing.fromString\<close>. The separator is the backslash (character 0x5C). The
  \<^verbatim>\<open>try\<close> block holds two calls of \<^verbatim>\<open>Number.parseFloat\<close>, which does not throw, so
  the \<^verbatim>\<open>catch\<close> branch with its \<^verbatim>\<open>Err\<close> is never entered.
\<close>

definition PixelSpacing_fromString :: "string \<Rightarrow> PixelSpacing Result" where
  "PixelSpacing_fromString str =
     (let rawNumbers = String_split (CHR 0x5C) str
      in if length rawNumbers \<noteq> 2 then Err ''Invalid value of Pixel Spacing''
         else Ok \<lparr>row = parseFloat (rawNumbers ! 0), column = parseFloat (rawNumbers ! 1)\<rparr>)"

text \<open>Whether a result is a failure.\<close>

fun isErr :: "'a Result \<Rightarrow> bool" where
  "isErr (Err msg) = True"
| "isErr (Ok v) = False"

section \<open>Windowing (common.ts)\<close>

record VoiLutWindow =
  center :: number
  width :: number

text \<open>
  The type \<^verbatim>\<open>VoiLutModule\<close>; its field \<^verbatim>\<open>voiLutFunction\<close> is \<open>module_voiLutFunction\<close>
  here, the name \<open>voiLutFunction\<close> being the field of the hint.
\<close>

record VoiLutModule =
  window :: VoiLutWindow
  module_voiLutFunction :: VoiLutFunction

text \<open>\<^verbatim>\<open>VoiLutWindow.default\<close> and \<^verbatim>\<open>VoiLutFunction_.default\<close>.\<close>

definition VoiLutWindow_default :: VoiLutWindow where
  "VoiLutWindow_default = \<lparr>center = Num 1024, width = Num 4096\<rparr>"

definition VoiLutFunction_default :: VoiLutFunction where
  "VoiLutFunction_default = Linear"

text \<open>
  Modelled from the spec: the windowing resolver \<open>resolve\<close> of section 4.5, which is not
  among the source files (only the defaults it falls back to and the extraction of the
  hint are). A hint that carries both center and width gives them as the window; the
  function of the hint is used, and is \<open>Linear\<close> when the hint has none; no hint gives
  the default module. The specification does not say what window a hint with only one of
  center and width gives; the default window is taken here.
\<close>

definition resolve :: "WindowingHint option \<Rightarrow> VoiLutModule" where
  "resolve hint =
     (case hint of
        None \<Rightarrow> \<lparr>window = VoiLutWindow_default, module_voiLutFunction = VoiLutFunction_default\<rparr>
      | Some h \<Rightarrow>
          \<lparr>window = (case windowCenter h of
                       None \<Rightarrow> VoiLutWindow_default
                     | Some c \<Rightarrow> (case windowWidth h of
                                    None \<Rightarrow> VoiLutWindow_default
                                  | Some w \<Rightarrow> \<lparr>center = c, width = w\<rparr>)),
           module_voiLutFunction = (case voiLutFunction h of
                                      None \<Rightarrow> VoiLutFunction_default
                                    | Some f \<Rightarrow> f)\<rparr>)"

section \<open>Example inputs\<close>

text \<open>
  A 1 by 2 image, uncompressed little-endian, Monochrome2, unsigned, 16 bits allocated
  and stored: the samples 0x1234 and 0xABCD, least significant byte first.
\<close>

definition sampleImage :: DicomImage where
  "sampleImage =
     \<lparr>compression = Compression_None,
      endianness = LittleEndian,
      rows = 1,
      columns = 2,
      samplePerPixel = 1,
      photometricInterpratation = Monochrome2,
      planarConfiguration = Some Interlaced,
      bitsAllocated = 16,
      bitsStored = 16,
      highBit = 15,
      pixelRepresentation = Unsigned,
      pixelData = \<lparr>buffer = [0x34, 0x12, 0xCD, 0xAB], byteOffset = 0, byteLength = 4\<rparr>,
      pixelDataVr = OW,
      voiLutModule = \<lparr>windowCenter = None, windowWidth = None, voiLutFunction = None\<rparr>\<rparr>"

text \<open>
  A 1 by 1 image of the transfer syntax 1.2.840.10008.1.2.2 (uncompressed, big-endian):
  the bytes 0x01 0x02, which are the sample 0x0102 most significant byte first.
\<close>

definition bigEndianImage :: DicomImage where
  "bigEndianImage =
     sampleImage\<lparr>endianness := BigEndian, columns := 1,
       pixelData := \<lparr>buffer = [0x01, 0x02], byteOffset = 0, byteLength = 2\<rparr>\<rparr>"

text \<open>A 1 by 1 uncompressed RGB image with three samples per pixel and four bytes of data.\<close>

definition rgbImage :: DicomImage where
  "rgbImage =
     sampleImage\<lparr>columns := 1, samplePerPixel := 3, photometricInterpratation := Rgb,
       bitsAllocated := 8, bitsStored := 8, highBit := 7, pixelDataVr := OB,
       pixelData := \<lparr>buffer = [1, 2, 3, 4], byteOffset = 0, byteLength = 4\<rparr>\<rparr>"

text \<open>
  A grayscale image with pixel data of value representation OW, 8 bits allocated,
  \<open>highBit = 7\<close> and \<open>bitsStored = 16\<close>.
\<close>

definition owEightBitImage :: DicomImage where
  "owEightBitImage = sampleImage\<lparr>bitsAllocated := 8, bitsStored := 16, highBit := 7\<rparr>"

text \<open>The same with 16 bits allocated.\<close>

definition badLayoutImage :: DicomImage where
  "badLayoutImage = sampleImage\<lparr>bitsStored := 16, highBit := 7\<rparr>"

text \<open>The first example image with the photometric interpretation MONOCHROME1.\<close>

definition monochrome1Image :: DicomImage where
  "monochrome1Image = sampleImage\<lparr>photometricInterpratation := Monochrome1\<rparr>"

text \<open>
  A tag source with every required tag, a window center and width, a pixel-data element
  of two bytes, and a photometric-interpretation string outside the enumeration.
\<close>

definition sampleDataSet :: DataSet where
  "sampleDataSet =
     \<lparr>dataSet_string = map_of [(''x00020012'', ''1.2.840.10008.1.2.1''),
                                (''x00280004'', ''NOT A PHOTOMETRIC VALUE'')],
      dataSet_uint16 = map_of [(''x00280010'', 1), (''x00280011'', 1), (''x00280002'', 1),
                                (''x00280100'', 16), (''x00280101'', 16), (''x00280102'', 15),
                                (''x00280103'', 0)],
      dataSet_floatString = map_of [(''x00281050'', Num 200), (''x00281051'', Num 400)],
      elements = map_of [(''x7fe00010'', \<lparr>vr = Some ''OW'', length_e = 2, dataOffset = 1\<rparr>)],
      byteArray = [0, 0x34, 0x12]\<rparr>"

text \<open>The image the extractor builds from that tag source.\<close>

definition extractedSampleImage :: DicomImage where
  "extractedSampleImage =
     \<lparr>compression = Compression_None,
      endianness = LittleEndian,
      rows = 1,
      columns = 1,
      samplePerPixel = 1,
      photometricInterpratation = ''NOT A PHOTOMETRIC VALUE'',
      planarConfiguration = Some Interlaced,
      bitsAllocated = 16,
      bitsStored = 16,
      highBit = 15,
      pixelRepresentation = Unsigned,
      pixelData = \<lparr>buffer = [0x34, 0x12], byteOffset = 0, byteLength = 2\<rparr>,
      pixelDataVr = OW,
      voiLutModule = \<lparr>windowCenter = Some (Num 200), windowWidth = Some (Num 400),
                       voiLutFunction = Some Linear\<rparr>\<rparr>"

text \<open>A windowing hint with center 200 and width 400 and no function.\<close>

definition centerWidthHint :: WindowingHint where
  "centerWidthHint =
     \<lparr>windowCenter = Some (Num 200), windowWidth = Some (Num 400), voiLutFunction = None\<rparr>"

section \<open>Facts about typed-array views\<close>

lemma u16_le16: "u16 LittleEndian (ucast v) (ucast (drop_bit 8 v)) = v"
  unfolding u16_def by (rule bit_word_eqI) (auto simp add: bit_simps)

lemma u16s_concat_le16: "u16s LittleEndian (concat (map le16 vals)) = vals"
  by (induction vals) (simp_all add: le16_def u16_le16)

lemma length_concat_le16: "length (concat (map le16 vals)) = 2 * length vals"
  by (induction vals) (simp_all add: le16_def)

lemma length_u16s: "length (u16s plat buf) = length buf div 2"
  by (induction plat buf rule: u16s.induct) simp_all

lemma nth_u16s:
  "i < length buf div 2 \<Longrightarrow> u16s plat buf ! i = u16 plat (buf ! (2 * i)) (buf ! (2 * i + 1))"
proof (induction plat buf arbitrary: i rule: u16s.induct)
  case (1 plat b0 b1 bs)
  then show ?case by (cases i) simp_all
qed simp_all

lemma length_u32s: "length (u32s plat buf) = length buf div 4"
  by (induction plat buf rule: u32s.induct) simp_all

lemma four_bytes:
  assumes "4 \<le> length buf"
  obtains b0 b1 b2 b3 bs where "buf = b0 # b1 # b2 # b3 # bs"
proof -
  from assms obtain b0 r0 where 0: "buf = b0 # r0" by (cases buf) auto
  with assms obtain b1 r1 where 1: "r0 = b1 # r1" by (cases r0) auto
  with 0 assms obtain b2 r2 where 2: "r1 = b2 # r2" by (cases r1) auto
  with 0 1 assms obtain b3 r3 where 3: "r2 = b3 # r3" by (cases r2) auto
  from 0 1 2 3 that show thesis by simp
qed

lemma nth_u32s:
  "i < length buf div 4 \<Longrightarrow>
   u32s plat buf ! i =
     u32 plat (buf ! (4 * i)) (buf ! (4 * i + 1)) (buf ! (4 * i + 2)) (buf ! (4 * i + 3))"
proof (induction i arbitrary: buf)
  case 0
  then have "4 \<le> length buf" by simp
  then obtain b0 b1 b2 b3 bs where "buf = b0 # b1 # b2 # b3 # bs" by (rule four_bytes)
  then show ?case by simp
next
  case (Suc j)
  then have "4 \<le> length buf" by simp
  then obtain b0 b1 b2 b3 bs where buf: "buf = b0 # b1 # b2 # b3 # bs" by (rule four_bytes)
  from Suc.prems buf have "j < length bs div 4" by simp
  from Suc.IH [OF this] have IH: "u32s plat bs ! j =
     u32 plat (bs ! (4 * j)) (bs ! (4 * j + 1)) (bs ! (4 * j + 2)) (bs ! (4 * j + 3))" .
  have e0: "4 * Suc j = Suc (Suc (Suc (Suc (4 * j))))" by simp
  have e1: "4 * Suc j + 1 = Suc (Suc (Suc (Suc (4 * j + 1))))" by simp
  have e2: "4 * Suc j + 2 = Suc (Suc (Suc (Suc (4 * j + 2))))" by simp
  have e3: "4 * Suc j + 3 = Suc (Suc (Suc (Suc (4 * j + 3))))" by simp
  show ?case unfolding buf e0 e1 e2 e3 by (simp add: IH add.commute)
qed

lemma Monochrome2_neq_Monochrome1: "Monochrome2 \<noteq> Monochrome1"
  by (simp add: Monochrome1_def Monochrome2_def)

lemma fromDicomImage_grayScale:
  "grayScalePreconditions img \<Longrightarrow>
   Image_fromDicomImage plat img =
     Image_fromDataForImageGrayScale plat (rows img) (columns img)
       (photometricInterpratation img) (pixelRepresentation img)
       (bitsAllocated img) (bitsStored img) (highBit img) (pixelData img) (pixelDataVr img)"
  by (auto simp add: grayScalePreconditions_def Image_fromDicomImage_def)

lemma fromDicomImage_not_grayScale:
  "\<not> grayScalePreconditions img \<Longrightarrow>
   Image_fromDicomImage plat img = Inl (Error ''Couldn't convert to Image'')"
  by (auto simp add: grayScalePreconditions_def Image_fromDicomImage_def)

section \<open>The sample decoder\<close>

text \<open>
  C1: an uncompressed Monochrome2 image with one sample per pixel, unsigned,
  \<open>bitsAllocated = 16\<close>, \<open>bitsStored = 16\<close>, \<open>highBit = 15\<close>, of either value
  representation, whose pixel-data buffer holds the \<open>rows * columns\<close> values \<open>vals\<close> as
  little-endian 16-bit samples, decodes to the grayscale raster of the same rows and
  columns whose sample buffer is exactly \<open>vals\<close>: nothing is scaled or shifted. The typed
  array reads the buffer in the platform's byte order, which is little-endian on the
  platforms JavaScript engines run on.
\<close>

theorem C1_decode_16bit_roundtrip:
  assumes "compression img = Compression_None"
    and "photometricInterpratation img = Monochrome2"
    and "samplePerPixel img = 1"
    and "pixelRepresentation img = Unsigned"
    and "bitsAllocated img = 16" and "bitsStored img = 16" and "highBit img = 15"
    and "pixelDataVr img = OB \<or> pixelDataVr img = OW"
    and "buffer (pixelData img) = concat (map le16 vals)"
    and "length vals = rows img * columns img"
  shows "Image_fromDicomImage LittleEndian img =
           Inr (ImageGrayScale (rows img) (columns img) (Uint16 vals))"
  using assms
  by (simp add: Image_fromDicomImage_def Image_fromDataForImageGrayScale_def
      new_Uint16Array_def Monochrome2_neq_Monochrome1 u16s_concat_le16 length_concat_le16)

theorem C1_decode_16bit_roundtrip_witness:
  "compression sampleImage = Compression_None
   \<and> photometricInterpratation sampleImage = Monochrome2
   \<and> samplePerPixel sampleImage = 1
   \<and> pixelRepresentation sampleImage = Unsigned
   \<and> bitsAllocated sampleImage = 16 \<and> bitsStored sampleImage = 16 \<and> highBit sampleImage = 15
   \<and> pixelDataVr sampleImage = OW
   \<and> buffer (pixelData sampleImage) = concat (map le16 [0x1234, 0xABCD])
   \<and> length [0x1234, 0xABCD :: 16 word] = rows sampleImage * columns sampleImage
   \<and> Image_fromDicomImage LittleEndian sampleImage =
       Inr (ImageGrayScale 1 2 (Uint16 [0x1234, 0xABCD]))"
proof -
  have bytes: "buffer (pixelData sampleImage) = concat (map le16 [0x1234, 0xABCD])"
    by (simp add: sampleImage_def le16_def)
  have "Image_fromDicomImage LittleEndian sampleImage =
          Inr (ImageGrayScale (rows sampleImage) (columns sampleImage) (Uint16 [0x1234, 0xABCD]))"
    by (rule C1_decode_16bit_roundtrip [OF _ _ _ _ _ _ _ _ bytes]) (simp_all add: sampleImage_def)
  with bytes show ?thesis by (simp add: sampleImage_def)
qed

text \<open>
  C3, as the specification states it, fails: the big-endian example image holds the bytes
  0x01 0x02, whose big-endian interpretation is 0x0102 (258), and the decoder returns the
  sample 0x0201 (513).
\<close>

theorem C3_big_endian_counterexample:
  "grayScalePreconditions bigEndianImage
   \<and> endianness bigEndianImage = BigEndian
   \<and> bitsAllocated bigEndianImage = 16
   \<and> buffer (pixelData bigEndianImage) = be16 258
   \<and> Image_fromDicomImage LittleEndian bigEndianImage = Inr (ImageGrayScale 1 1 (Uint16 [513]))
   \<and> u16 BigEndian (buffer (pixelData bigEndianImage) ! 0) (buffer (pixelData bigEndianImage) ! 1)
       = 258
   \<and> (513 :: 16 word) \<noteq> 258"
  by (simp add: bigEndianImage_def sampleImage_def grayScalePreconditions_def be16_def
      Image_fromDicomImage_def Image_fromDataForImageGrayScale_def new_Uint16Array_def
      Monochrome2_neq_Monochrome1 u16_def)

text \<open>
  C3, amended: the decoder never consults the byte order the transfer syntax declares
  and makes no byte-swap pass. Whenever an image decodes, the same image with any other
  declared endianness decodes to the same raster; with \<open>bitsAllocated = 16\<close> (or 32)
  decoded sample \<open>i\<close> is the interpretation of bytes \<open>2 * i\<close>, \<open>2 * i + 1\<close> (or
  \<open>4 * i\<close> to \<open>4 * i + 3\<close>) of the raw buffer in the byte order of the platform, which
  is little-endian where JavaScript engines run.
\<close>

theorem C3_decoder_reads_platform_order:
  assumes "Image_fromDicomImage plat img = Inr r"
  shows "Image_fromDicomImage plat (img\<lparr>endianness := e\<rparr>) = Inr r
    \<and> (bitsAllocated img = 16 \<longrightarrow>
         (\<exists>ws. r = ImageGrayScale (rows img) (columns img) (Uint16 ws)
            \<and> length ws = length (buffer (pixelData img)) div 2
            \<and> (\<forall>i<length ws. ws ! i =
                  u16 plat (buffer (pixelData img) ! (2 * i))
                           (buffer (pixelData img) ! (2 * i + 1)))))
    \<and> (bitsAllocated img = 32 \<longrightarrow>
         (\<exists>ws. r = ImageGrayScale (rows img) (columns img) (Uint32 ws)
            \<and> length ws = length (buffer (pixelData img)) div 4
            \<and> (\<forall>i<length ws. ws ! i =
                  u32 plat (buffer (pixelData img) ! (4 * i))
                           (buffer (pixelData img) ! (4 * i + 1))
                           (buffer (pixelData img) ! (4 * i + 2))
                           (buffer (pixelData img) ! (4 * i + 3)))))"
proof (intro conjI impI)
  show "Image_fromDicomImage plat (img\<lparr>endianness := e\<rparr>) = Inr r"
    using assms by (auto simp add: Image_fromDicomImage_def split: if_splits)
next
  assume b: "bitsAllocated img = 16"
  from assms b have "r = ImageGrayScale (rows img) (columns img)
                           (Uint16 (u16s plat (buffer (pixelData img))))"
    by (auto simp add: Image_fromDicomImage_def Image_fromDataForImageGrayScale_def
        new_Uint16Array_def split: if_splits)
  then show "\<exists>ws. r = ImageGrayScale (rows img) (columns img) (Uint16 ws)
            \<and> length ws = length (buffer (pixelData img)) div 2
            \<and> (\<forall>i<length ws. ws ! i =
                  u16 plat (buffer (pixelData img) ! (2 * i))
                           (buffer (pixelData img) ! (2 * i + 1)))"
    by (simp add: length_u16s nth_u16s)
next
  assume b: "bitsAllocated img = 32"
  from assms b have "r = ImageGrayScale (rows img) (columns img)
                           (Uint32 (u32s plat (buffer (pixelData img))))"
    by (auto simp add: Image_fromDicomImage_def Image_fromDataForImageGrayScale_def
        new_Uint32Array_def split: if_splits)
  then show "\<exists>ws. r = ImageGrayScale (rows img) (columns img) (Uint32 ws)
            \<and> length ws = length (buffer (pixelData img)) div 4
            \<and> (\<forall>i<length ws. ws ! i =
                  u32 plat (buffer (pixelData img) ! (4 * i))
                           (buffer (pixelData img) ! (4 * i + 1))
                           (buffer (pixelData img) ! (4 * i + 2))
                           (buffer (pixelData img) ! (4 * i + 3)))"
    by (simp add: length_u32s nth_u32s)
qed

theorem C3_decoder_reads_platform_order_witness:
  "Image_fromDicomImage LittleEndian bigEndianImage = Inr (ImageGrayScale 1 1 (Uint16 [513]))
   \<and> Image_fromDicomImage LittleEndian (bigEndianImage\<lparr>endianness := LittleEndian\<rparr>)
       = Inr (ImageGrayScale 1 1 (Uint16 [513]))
   \<and> bitsAllocated bigEndianImage = 16
   \<and> (\<exists>ws. ImageGrayScale 1 1 (Uint16 [513]) = ImageGrayScale 1 1 (Uint16 ws)
        \<and> length ws = 1 \<and> ws ! 0 = u16 LittleEndian 1 2)"
proof -
  have h: "Image_fromDicomImage LittleEndian bigEndianImage
             = Inr (ImageGrayScale 1 1 (Uint16 [513]))"
    by (simp add: bigEndianImage_def sampleImage_def Image_fromDicomImage_def
        Image_fromDataForImageGrayScale_def new_Uint16Array_def
        Monochrome2_neq_Monochrome1 u16_def)
  have b: "bitsAllocated bigEndianImage = 16"
    by (simp add: bigEndianImage_def sampleImage_def)
  from C3_decoder_reads_platform_order [OF h, of LittleEndian] h b show ?thesis
    by (simp add: u16_def bigEndianImage_def sampleImage_def)
qed

text \<open>
  C5, as the specification states it, fails: the RGB example image does not meet the
  grayscale preconditions, and decoding it throws \<^verbatim>\<open>Error("Couldn't convert to Image")\<close>;
  the raster that \<^verbatim>\<open>_rgbFrom\<close> would give for it is not returned.
\<close>

theorem C5_no_rgb_decode_counterexample:
  "\<not> grayScalePreconditions rgbImage
   \<and> Image_fromDicomImage LittleEndian rgbImage = Inl (Error ''Couldn't convert to Image'')
   \<and> Image_rgbFrom LittleEndian rgbImage = Inr (ImageRGB 1 1 [0x04030201])
   \<and> Image_fromDicomImage LittleEndian rgbImage \<noteq> Image_rgbFrom LittleEndian rgbImage"
  by (simp add: rgbImage_def sampleImage_def grayScalePreconditions_def Image_fromDicomImage_def
      Image_rgbFrom_def new_Uint32Array_def u32_def Rgb_def Monochrome1_def Monochrome2_def)

text \<open>
  C5, amended: for every image that does not meet the grayscale preconditions the decode
  operation makes no RGB decode: it throws \<^verbatim>\<open>Error("Couldn't convert to Image")\<close> and
  returns no raster. The reinterpretation of the raw buffer as 32-bit packed pixels is
  the separate function \<^verbatim>\<open>_rgbFrom\<close>, which the decode operation does not call; its
  result does not depend on planarConfiguration, bitsAllocated, highBit or
  pixelRepresentation.
\<close>

theorem C5_not_grayscale_throws:
  assumes "\<not> grayScalePreconditions img"
  shows "Image_fromDicomImage plat img = Inl (Error ''Couldn't convert to Image'')
    \<and> \<not> returnsRaster (Image_fromDicomImage plat img)
    \<and> Image_rgbFrom plat (img\<lparr>planarConfiguration := pc, bitsAllocated := ba, highBit := hb,
                                pixelRepresentation := pr\<rparr>)
        = Image_rgbFrom plat img"
  using assms by (simp add: fromDicomImage_not_grayScale Image_rgbFrom_def split: sum.split)

theorem C5_not_grayscale_throws_witness:
  "\<not> grayScalePreconditions rgbImage
   \<and> Image_fromDicomImage BigEndian rgbImage = Inl (Error ''Couldn't convert to Image'')
   \<and> \<not> returnsRaster (Image_fromDicomImage BigEndian rgbImage)
   \<and> Image_rgbFrom BigEndian
        (rgbImage\<lparr>planarConfiguration := None, bitsAllocated := 16, highBit := 15,
                   pixelRepresentation := Signed\<rparr>)
       = Image_rgbFrom BigEndian rgbImage"
proof -
  have h: "\<not> grayScalePreconditions rgbImage"
    by (simp add: rgbImage_def sampleImage_def grayScalePreconditions_def Rgb_def
        Monochrome1_def Monochrome2_def)
  from C5_not_grayscale_throws
         [OF h, where plat = BigEndian and pc = None and ba = 16 and hb = 15 and pr = Signed] h show ?thesis
    by simp
qed

text \<open>
  C6: an image with the photometric interpretation Monochrome1 never decodes to a raster;
  when it meets the preconditions checked before (no compression, one sample per pixel,
  a value representation coherent with bitsAllocated, \<open>highBit + 1 = bitsStored\<close>) the
  failure is \<open>UnsupportedPhotometricInterpretation\<close>; and only Monochrome2 reaches the
  reinterpretation of the buffer: an image for which it gives a raster, or fails on the
  bit depth or on the length of the buffer, has the photometric interpretation
  Monochrome2.
\<close>

theorem C6_monochrome1_rejected:
  "(photometricInterpratation img = Monochrome1 \<longrightarrow>
      \<not> returnsRaster (Image_fromDicomImage plat img))
   \<and> (photometricInterpratation img = Monochrome1
        \<and> compression img = Compression_None \<and> samplePerPixel img = 1
        \<and> \<not> (pixelDataVr img = OW \<and> bitsAllocated img \<noteq> 16)
        \<and> highBit img + 1 = bitsStored img \<longrightarrow>
      Image_fromDicomImage plat img = Inl UnsupportedPhotometricInterpretation)
   \<and> (returnsRaster (Image_fromDicomImage plat img)
        \<or> Image_fromDicomImage plat img = Inl UnsupportedBitDepth
        \<or> Image_fromDicomImage plat img = Inl RangeError \<longrightarrow>
      photometricInterpratation img = Monochrome2)"
  by (auto simp add: Image_fromDicomImage_def Image_fromDataForImageGrayScale_def
      UnsupportedPhotometricInterpretation_def UnsupportedBitDepth_def split: if_splits)

theorem C6_monochrome1_rejected_witness:
  "photometricInterpratation monochrome1Image = Monochrome1
   \<and> compression monochrome1Image = Compression_None \<and> samplePerPixel monochrome1Image = 1
   \<and> \<not> (pixelDataVr monochrome1Image = OW \<and> bitsAllocated monochrome1Image \<noteq> 16)
   \<and> highBit monochrome1Image + 1 = bitsStored monochrome1Image
   \<and> \<not> returnsRaster (Image_fromDicomImage LittleEndian monochrome1Image)
   \<and> Image_fromDicomImage LittleEndian monochrome1Image = Inl UnsupportedPhotometricInterpretation
   \<and> returnsRaster (Image_fromDicomImage LittleEndian sampleImage)
   \<and> photometricInterpratation sampleImage = Monochrome2"
proof -
  have m: "photometricInterpratation monochrome1Image = Monochrome1
           \<and> compression monochrome1Image = Compression_None
           \<and> samplePerPixel monochrome1Image = 1
           \<and> \<not> (pixelDataVr monochrome1Image = OW \<and> bitsAllocated monochrome1Image \<noteq> 16)
           \<and> highBit monochrome1Image + 1 = bitsStored monochrome1Image"
    by (simp add: monochrome1Image_def sampleImage_def)
  have s: "returnsRaster (Image_fromDicomImage LittleEndian sampleImage)"
    by (simp add: sampleImage_def Image_fromDicomImage_def Image_fromDataForImageGrayScale_def
        new_Uint16Array_def Monochrome2_neq_Monochrome1)
  from C6_monochrome1_rejected [of monochrome1Image LittleEndian]
       C6_monochrome1_rejected [of sampleImage LittleEndian] m s
  show ?thesis by simp
qed

text \<open>
  C7, as the specification states it, fails: the image with value representation OW,
  8 bits allocated, \<open>highBit = 7\<close> and \<open>bitsStored = 16\<close> is on the grayscale decode
  path and has \<open>highBit + 1 \<noteq> bitsStored\<close>, and the failure raised is the one of the
  earlier check of the value representation, not \<open>UnsupportedBitLayout\<close>.
\<close>

theorem C7_bit_layout_counterexample:
  "grayScalePreconditions owEightBitImage
   \<and> highBit owEightBitImage + 1 \<noteq> bitsStored owEightBitImage
   \<and> Image_fromDicomImage LittleEndian owEightBitImage = Inl UnsupportedPixelDataRepresentation
   \<and> Image_fromDicomImage LittleEndian owEightBitImage \<noteq> Inl UnsupportedBitLayout"
  by (simp add: owEightBitImage_def sampleImage_def grayScalePreconditions_def
      Image_fromDicomImage_def Image_fromDataForImageGrayScale_def
      UnsupportedPixelDataRepresentation_def UnsupportedBitLayout_def)

text \<open>
  C7, amended: for every image on the grayscale decode path with
  \<open>highBit + 1 \<noteq> bitsStored\<close> the decoder returns no raster; it raises
  \<open>UnsupportedBitLayout\<close>, unless the value representation is OW and bitsAllocated is
  not 16, where the check made before raises \<open>UnsupportedPixelDataRepresentation\<close>.
  Nothing is defaulted in either case.
\<close>

theorem C7_bit_layout_rejected:
  assumes "grayScalePreconditions img" and "highBit img + 1 \<noteq> bitsStored img"
  shows "\<not> returnsRaster (Image_fromDicomImage plat img)
    \<and> Image_fromDicomImage plat img =
        (if pixelDataVr img = OW \<and> bitsAllocated img \<noteq> 16
         then Inl UnsupportedPixelDataRepresentation else Inl UnsupportedBitLayout)"
  using assms
  by (simp add: fromDicomImage_grayScale Image_fromDataForImageGrayScale_def
      UnsupportedPixelDataRepresentation_def UnsupportedBitLayout_def)

theorem C7_bit_layout_rejected_witness:
  "grayScalePreconditions badLayoutImage
   \<and> highBit badLayoutImage = 7 \<and> bitsStored badLayoutImage = 16
   \<and> highBit badLayoutImage + 1 \<noteq> bitsStored badLayoutImage
   \<and> \<not> returnsRaster (Image_fromDicomImage LittleEndian badLayoutImage)
   \<and> Image_fromDicomImage LittleEndian badLayoutImage = Inl UnsupportedBitLayout"
proof -
  have g: "grayScalePreconditions badLayoutImage"
    by (simp add: badLayoutImage_def sampleImage_def grayScalePreconditions_def)
  have h: "highBit badLayoutImage + 1 \<noteq> bitsStored badLayoutImage"
    by (simp add: badLayoutImage_def sampleImage_def)
  from C7_bit_layout_rejected [OF g h, of LittleEndian] g h show ?thesis
    by (simp add: badLayoutImage_def sampleImage_def)
qed

section \<open>The transfer syntax resolver\<close>

lemma fromTransferSyntaxUID_unrecognized:
  "uid \<notin> set recognizedUIDs \<Longrightarrow>
   TransferSyntax_fromTransferSyntaxUID uid = UnrecognizedTransferSyntax"
  by (simp add: recognizedUIDs_def TransferSyntax_fromTransferSyntaxUID_def
      UnrecognizedTransferSyntax_def)

lemma DicomImage_fromTransferSyntaxUID_unrecognized:
  "uid \<notin> set recognizedUIDs \<Longrightarrow> DicomImage_fromTransferSyntaxUID (Some uid) = UncompressedBE"
  by (simp add: recognizedUIDs_def DicomImage_fromTransferSyntaxUID_def)

text \<open>
  C2: an unrecognized UID must give the failure \<open>UnrecognizedTransferSyntax\<close> and never
  a default member. The resolver of common.ts does so (lemma
  \<open>fromTransferSyntaxUID_unrecognized\<close>); the resolver of DicomImage.ts, the one the
  metadata extractor calls, does not: for the UID 1.2.3, which is not in the table, and
  for an absent UID tag it returns the member UncompressedBE, and the extractor goes on
  with no compression and big-endian byte order.
\<close>

theorem C2_unrecognized_uid_defaults_to_big_endian:
  "''1.2.3'' \<notin> set recognizedUIDs
   \<and> TransferSyntax_fromTransferSyntaxUID ''1.2.3'' = UnrecognizedTransferSyntax
   \<and> DicomImage_fromTransferSyntaxUID (Some ''1.2.3'') = UncompressedBE
   \<and> DicomImage_fromTransferSyntaxUID None = UncompressedBE
   \<and> toCompressionAndEndianness (DicomImage_fromTransferSyntaxUID (Some ''1.2.3''))
       = (Compression_None, BigEndian)"
  by (simp add: recognizedUIDs_def TransferSyntax_fromTransferSyntaxUID_def
      UnrecognizedTransferSyntax_def DicomImage_fromTransferSyntaxUID_def)

text \<open>
  C4: each of the ten recognized UIDs resolves to the documented member, in both
  resolvers; \<open>toCompressionAndEndianness\<close>, a total function, gives every member the
  pair of the table; and the six pairs are pairwise distinct.
\<close>

theorem C4_recognized_uids_and_classification:
  "TransferSyntax_fromTransferSyntaxUID ''1.2.840.10008.1.2'' = Ok UncompressedLE
   \<and> TransferSyntax_fromTransferSyntaxUID ''1.2.840.10008.1.2.1'' = Ok UncompressedLE
   \<and> TransferSyntax_fromTransferSyntaxUID ''1.2.840.10008.1.2.2'' = Ok UncompressedBE
   \<and> TransferSyntax_fromTransferSyntaxUID ''1.2.840.10008.1.2.4.90'' = Ok JPEG2000
   \<and> TransferSyntax_fromTransferSyntaxUID ''1.2.840.10008.1.2.4.91'' = Ok JPEG2000
   \<and> TransferSyntax_fromTransferSyntaxUID ''1.2.840.10008.1.2.5'' = Ok DecodeRLE
   \<and> TransferSyntax_fromTransferSyntaxUID ''1.2.840.10008.1.2.4.57'' = Ok JPEGLossless
   \<and> TransferSyntax_fromTransferSyntaxUID ''1.2.840.10008.1.2.4.70'' = Ok JPEGLossless
   \<and> TransferSyntax_fromTransferSyntaxUID ''1.2.840.10008.1.2.4.50'' = Ok JPEGBaseline
   \<and> TransferSyntax_fromTransferSyntaxUID ''1.2.840.10008.1.2.4.51'' = Ok JPEGBaseline
   \<and> map (DicomImage_fromTransferSyntaxUID \<circ> Some) recognizedUIDs
       = [UncompressedLE, UncompressedLE, UncompressedBE, JPEG2000, JPEG2000, DecodeRLE,
          JPEGLossless, JPEGLossless, JPEGBaseline, JPEGBaseline]
   \<and> toCompressionAndEndianness UncompressedLE = (Compression_None, LittleEndian)
   \<and> toCompressionAndEndianness UncompressedBE = (Compression_None, BigEndian)
   \<and> toCompressionAndEndianness JPEG2000 = (Jpeg2000, LittleEndian)
   \<and> toCompressionAndEndianness DecodeRLE = (Rle, LittleEndian)
   \<and> toCompressionAndEndianness JPEGLossless = (JpegLossless, LittleEndian)
   \<and> toCompressionAndEndianness JPEGBaseline = (JpegBaseline, LittleEndian)
   \<and> set [JPEG2000, DecodeRLE, JPEGLossless, JPEGBaseline, UncompressedLE, UncompressedBE] = UNIV
   \<and> distinct (map toCompressionAndEndianness
        [JPEG2000, DecodeRLE, JPEGLossless, JPEGBaseline, UncompressedLE, UncompressedBE])"
proof -
  have "set [JPEG2000, DecodeRLE, JPEGLossless, JPEGBaseline, UncompressedLE, UncompressedBE]
          = (UNIV :: TransferSyntax set)"
  proof -
    have "x \<in> set [JPEG2000, DecodeRLE, JPEGLossless, JPEGBaseline, UncompressedLE,
                     UncompressedBE]" for x :: TransferSyntax
      by (cases x) simp_all
    then show ?thesis by blast
  qed
  then show ?thesis
    by (simp add: TransferSyntax_fromTransferSyntaxUID_def DicomImage_fromTransferSyntaxUID_def
        recognizedUIDs_def)
qed

section \<open>PixelSpacing\<close>

lemma parseFloat_half: "parseFloat ''0.5'' = Num (1 / 2)"
  by (simp add: parseFloat_def isWhiteSpace_def isDigit_def digitsValue_def digitValue_def)

lemma parseFloat_abc: "parseFloat ''abc'' = NaN"
  by (simp add: parseFloat_def isWhiteSpace_def isDigit_def)

text \<open>
  C8: the string of the two fields 0.5 and 0.5 separated by a backslash must give
  \<^verbatim>\<open>Ok({row: 0.5, column: 0.5})\<close>, and the one-field string 0.5 and the string of
  the fields abc and 0.5 a parse error. The first two hold. For the fields abc and 0.5
  the code returns \<^verbatim>\<open>Ok({row: NaN, column: 0.5})\<close>: \<^verbatim>\<open>Number.parseFloat("abc")\<close>
  is \<^verbatim>\<open>NaN\<close> and throws nothing, so the \<^verbatim>\<open>catch\<close> branch that holds the error is
  not reached.
\<close>

theorem C8_non_numeric_field_is_accepted:
  "PixelSpacing_fromString (''0.5'' @ [CHR 0x5C] @ ''0.5'')
     = Ok \<lparr>row = Num (1 / 2), column = Num (1 / 2)\<rparr>
   \<and> PixelSpacing_fromString ''0.5'' = Err ''Invalid value of Pixel Spacing''
   \<and> PixelSpacing_fromString (''abc'' @ [CHR 0x5C] @ ''0.5'')
     = Ok \<lparr>row = NaN, column = Num (1 / 2)\<rparr>
   \<and> \<not> isErr (PixelSpacing_fromString (''abc'' @ [CHR 0x5C] @ ''0.5''))"
  by (simp add: PixelSpacing_fromString_def parseFloat_half parseFloat_abc)

section \<open>The metadata extractor and windowing\<close>

lemma fromDataSet_Ok_fields:
  assumes "DicomImage_fromDataSet ds = Inr (Ok img)"
  shows "dataSet_string ds ''x00280004'' = Some (photometricInterpratation img)
    \<and> voiLutModule img =
       \<lparr>windowCenter = dataSet_floatString ds ''x00281050'',
        windowWidth = dataSet_floatString ds ''x00281051'',
        voiLutFunction =
          (case dataSet_string ds ''x00281056'' of
             Some f \<Rightarrow> Some f
           | None \<Rightarrow> (if dataSet_floatString ds ''x00281050'' \<noteq> None
                      then Some Linear else None))\<rparr>"
  using assms unfolding DicomImage_fromDataSet_def required_def Let_def
  by (auto split: option.splits if_splits)

text \<open>
  C9: the windowing resolver is a total function; without a hint it returns the default
  module, window center 1024 and width 4096 with the function Linear, built from
  \<^verbatim>\<open>VoiLutWindow.default\<close> and \<^verbatim>\<open>VoiLutFunction_.default\<close>; a hint with a center and a
  width gives exactly these two values as the window, whatever they are; a hint without
  a function gives Linear; and the extractor itself sets the function of the hint to
  Linear when the function tag is absent and a window center is present.
\<close>

theorem C9_windowing_defaults:
  "resolve None =
     \<lparr>window = \<lparr>center = Num 1024, width = Num 4096\<rparr>, module_voiLutFunction = Linear\<rparr>
   \<and> (windowCenter h = Some c \<and> windowWidth h = Some w \<longrightarrow>
        window (resolve (Some h)) = \<lparr>center = c, width = w\<rparr>)
   \<and> (voiLutFunction h = None \<longrightarrow> module_voiLutFunction (resolve (Some h)) = Linear)
   \<and> (DicomImage_fromDataSet ds = Inr (Ok img)
        \<and> dataSet_string ds ''x00281056'' = None
        \<and> dataSet_floatString ds ''x00281050'' = Some c' \<longrightarrow>
        voiLutFunction (voiLutModule img) = Some Linear
        \<and> windowCenter (voiLutModule img) = Some c'
        \<and> module_voiLutFunction (resolve (Some (voiLutModule img))) = Linear)"
proof (intro conjI impI)
  show "resolve None =
     \<lparr>window = \<lparr>center = Num 1024, width = Num 4096\<rparr>, module_voiLutFunction = Linear\<rparr>"
    by (simp add: resolve_def VoiLutWindow_default_def VoiLutFunction_default_def)
next
  assume "windowCenter h = Some c \<and> windowWidth h = Some w"
  then show "window (resolve (Some h)) = \<lparr>center = c, width = w\<rparr>"
    by (simp add: resolve_def)
next
  assume "voiLutFunction h = None"
  then show "module_voiLutFunction (resolve (Some h)) = Linear"
    by (simp add: resolve_def VoiLutFunction_default_def)
next
  assume a: "DicomImage_fromDataSet ds = Inr (Ok img)
        \<and> dataSet_string ds ''x00281056'' = None
        \<and> dataSet_floatString ds ''x00281050'' = Some c'"
  then have v: "voiLutModule img =
       \<lparr>windowCenter = Some c',
        windowWidth = dataSet_floatString ds ''x00281051'',
        voiLutFunction = Some Linear\<rparr>"
    using fromDataSet_Ok_fields [of ds img] by simp
  show "voiLutFunction (voiLutModule img) = Some Linear" by (simp add: v)
  show "windowCenter (voiLutModule img) = Some c'" by (simp add: v)
  show "module_voiLutFunction (resolve (Some (voiLutModule img))) = Linear"
    by (simp add: v resolve_def)
qed

lemma fromDataSet_sampleDataSet:
  "DicomImage_fromDataSet sampleDataSet = Inr (Ok extractedSampleImage)"
  by (simp add: DicomImage_fromDataSet_def required_def sampleDataSet_def
      extractedSampleImage_def DicomImage_fromTransferSyntaxUID_def copyPixelData_def upt_rec)

theorem C9_windowing_defaults_witness:
  "windowCenter centerWidthHint = Some (Num 200) \<and> windowWidth centerWidthHint = Some (Num 400)
   \<and> voiLutFunction centerWidthHint = None
   \<and> resolve (Some centerWidthHint) =
       \<lparr>window = \<lparr>center = Num 200, width = Num 400\<rparr>, module_voiLutFunction = Linear\<rparr>
   \<and> DicomImage_fromDataSet sampleDataSet = Inr (Ok extractedSampleImage)
   \<and> dataSet_string sampleDataSet ''x00281056'' = None
   \<and> dataSet_floatString sampleDataSet ''x00281050'' = Some (Num 200)
   \<and> voiLutFunction (voiLutModule extractedSampleImage) = Some Linear
   \<and> module_voiLutFunction (resolve (Some (voiLutModule extractedSampleImage))) = Linear"
proof -
  have h: "windowCenter centerWidthHint = Some (Num 200)
           \<and> windowWidth centerWidthHint = Some (Num 400)"
    and f: "voiLutFunction centerWidthHint = None"
    by (simp_all add: centerWidthHint_def)
  have d: "DicomImage_fromDataSet sampleDataSet = Inr (Ok extractedSampleImage)
           \<and> dataSet_string sampleDataSet ''x00281056'' = None
           \<and> dataSet_floatString sampleDataSet ''x00281050'' = Some (Num 200)"
    by (simp add: fromDataSet_sampleDataSet) (simp add: sampleDataSet_def)
  have "resolve (Some centerWidthHint) =
          \<lparr>window = window (resolve (Some centerWidthHint)),
           module_voiLutFunction = module_voiLutFunction (resolve (Some centerWidthHint))\<rparr>"
    by simp
  with C9_windowing_defaults
         [where h = centerWidthHint and c = "Num 200" and w = "Num 400"
            and ds = sampleDataSet and img = extractedSampleImage and c' = "Num 200"]
       h f d
  show ?thesis by simp
qed

text \<open>
  C10: the extractor does not check the photometric-interpretation string against the
  enumeration. When that tag holds any string \<open>p\<close> and the other tags are valid (rows,
  columns, samples per pixel, bits allocated, bits stored, high bit present; planar
  configuration absent, 0 or 1; pixel representation 0 or 1; a pixel-data element whose
  value representation is absent, OB or OW; no VOI LUT sequence), extraction succeeds
  and the image carries \<open>p\<close> itself as its photometric interpretation.
\<close>

theorem C10_photometric_string_unvalidated:
  assumes "dataSet_string ds ''x00280004'' = Some p"
    and "dataSet_uint16 ds ''x00280010'' = Some r"
    and "dataSet_uint16 ds ''x00280011'' = Some c"
    and "dataSet_uint16 ds ''x00280002'' = Some spp"
    and "dataSet_uint16 ds ''x00280006'' = None \<or> dataSet_uint16 ds ''x00280006'' = Some 0
         \<or> dataSet_uint16 ds ''x00280006'' = Some 1"
    and "dataSet_uint16 ds ''x00280100'' = Some ba"
    and "dataSet_uint16 ds ''x00280101'' = Some bs"
    and "dataSet_uint16 ds ''x00280102'' = Some hb"
    and "dataSet_uint16 ds ''x00280103'' = Some 0 \<or> dataSet_uint16 ds ''x00280103'' = Some 1"
    and "elements ds ''x7fe00010'' = Some el"
    and "vr el = None \<or> vr el = Some ''OB'' \<or> vr el = Some ''OW''"
    and "elements ds ''x00283010'' = None"
  shows "\<exists>img. DicomImage_fromDataSet ds = Inr (Ok img) \<and> photometricInterpratation img = p"
proof -
  from assms(5) have pc: "(case dataSet_uint16 ds ''x00280006'' of None \<Rightarrow> 0 | Some v \<Rightarrow> v) = 0
      \<or> (case dataSet_uint16 ds ''x00280006'' of None \<Rightarrow> 0 | Some v \<Rightarrow> v) = 1"
    by auto
  from assms(11) have pv: "(case vr el of None \<Rightarrow> ''OB'' | Some v \<Rightarrow> v) = ''OB''
      \<or> (case vr el of None \<Rightarrow> ''OB'' | Some v \<Rightarrow> v) = ''OW''"
    by auto
  from assms(9) obtain prv where pr: "dataSet_uint16 ds ''x00280103'' = Some prv"
    and prv: "prv = 0 \<or> prv = 1" by auto
  show ?thesis
    unfolding DicomImage_fromDataSet_def required_def Let_def
    using assms(1-4,6-8,10,12) pc pv pr prv
    by auto
qed

theorem C10_photometric_string_unvalidated_witness:
  "dataSet_string sampleDataSet ''x00280004'' = Some ''NOT A PHOTOMETRIC VALUE''
   \<and> (\<exists>img. DicomImage_fromDataSet sampleDataSet = Inr (Ok img)
         \<and> photometricInterpratation img = ''NOT A PHOTOMETRIC VALUE'')"
proof -
  have p: "dataSet_string sampleDataSet ''x00280004'' = Some ''NOT A PHOTOMETRIC VALUE''"
    by (simp add: sampleDataSet_def)
  have "\<exists>img. DicomImage_fromDataSet sampleDataSet = Inr (Ok img)
         \<and> photometricInterpratation img = ''NOT A PHOTOMETRIC VALUE''"
    by (rule C10_photometric_string_unvalidated
          [OF p, where r = 1 and c = 1 and spp = 1 and ba = 16 and bs = 16 and hb = 15
             and el = "\<lparr>vr = Some ''OW'', length_e = 2, dataOffset = 1\<rparr>"])
       (simp_all add: sampleDataSet_def)
  with p show ?thesis by simp
qed

end
